theory Spec2Isabelle
  imports Complex_Main "HOL-Library.Log_Nat"
begin

section \<open>Strings and arrays\<close>

text \<open>
  A JavaScript string is a sequence of code units and is modelled as a \<open>string\<close>
  (a list of characters), an array as a list; \<open>length\<close> is the JavaScript \<open>.length\<close>.
  The functions below tell characters apart only as digits, the dot, the quotation mark,
  the backslash and the control characters, which every \<open>char\<close> set has.
  \<open>slice(start, end)\<close> of \<open>String.prototype\<close> and of \<open>Array.prototype\<close> takes integral
  indices: a negative index counts from the end, both indices are clamped to the sequence,
  and a missing \<open>end\<close> (\<open>None\<close>) is its length.
\<close>

definition slice :: "'a list \<Rightarrow> int \<Rightarrow> int option \<Rightarrow> 'a list" where
  "slice s start fin =
     (let len = int (length s);
          rel = (\<lambda>k. if k < 0 then max (len + k) 0 else min k len);
          lo = rel start;
          hi = (case fin of None \<Rightarrow> len | Some e \<Rightarrow> rel e)
      in take (nat (hi - lo)) (drop (nat lo) s))"

text \<open>\<open>Array.prototype.join\<close> and \<open>String.prototype.split\<close> with a one-character separator.\<close>

fun join :: "string \<Rightarrow> string list \<Rightarrow> string" where
  "join sep [] = []"
| "join sep [x] = x"
| "join sep (x # y # ys) = x @ sep @ join sep (y # ys)"

fun split :: "char \<Rightarrow> string \<Rightarrow> string list" where
  "split sep [] = [[]]"
| "split sep (c # cs) =
     (if c = sep then [] # split sep cs
      else (case split sep cs of [] \<Rightarrow> [[c]] | p # ps \<Rightarrow> (c # p) # ps))"

text \<open>The decimal digits of a natural number and of an integer, as \<open>String(n)\<close> prints them.\<close>

fun show_nat :: "nat \<Rightarrow> string" where
  "show_nat n =
     (if n < 10 then [''0123456789'' ! n]
      else show_nat (n div 10) @ [''0123456789'' ! (n mod 10)])"

declare show_nat.simps [simp del]

definition show_int :: "int \<Rightarrow> string" where
  "show_int i = (if i < 0 then CHR ''-'' # show_nat (nat (- i)) else show_nat (nat i))"

section \<open>The API log store (components/dev/ApiLogger.tsx)\<close>

text \<open>
  \<^verbatim>\<open>export type ApiLogEntry = {
    id: string; timestamp: Date; method: string; url: string;
    status?: number; statusText?: string; duration?: number;
    requestBody?: unknown; responseBody?: unknown; error?: string;
  };\<close>
  The caller passes an entry without \<open>id\<close> and \<open>timestamp\<close>. An optional field is an
  \<open>option\<close>; the bodies, of type \<open>unknown\<close>, have a type parameter; a \<open>Date\<close> is its
  time value in milliseconds.
\<close>

record 'b ApiLogInput =
  "method" :: string
  url :: string
  status :: "int option"
  statusText :: "string option"
  duration :: "int option"
  requestBody :: "'b option"
  responseBody :: "'b option"
  error :: "string option"

record 'b ApiLogEntry = "'b ApiLogInput" +
  id :: string
  timestamp :: nat

text \<open>
  The clock and the random source are not part of the store: a call of \<open>addApiLog\<close> reads
  \<open>Date.now()\<close>, \<open>Math.random()\<close> (here already printed as a string) and \<open>new Date()\<close>
  once each. The parameter \<open>log\<close> of \<open>addApiLog\<close> is called \<open>input\<close> below.
\<close>

record ambient =
  date_now :: nat
  math_random :: string
  new_date :: nat

text \<open>
  \<^verbatim>\<open>let globalLogs: ApiLogEntry[] = [];
  let logListeners: Array<(logs: ApiLogEntry[]) => void> = [];\<close>
  A listener is a callback of a mounted component, which stores the list it receives in
  the component's state and does not throw; it is modelled by a name, and every call of a
  listener is recorded, with the list it received, in \<open>calls\<close> (oldest call first).
\<close>

type_synonym listener = nat

record 'b store =
  globalLogs :: "'b ApiLogEntry list"
  logListeners :: "listener list"
  calls :: "(listener \<times> 'b ApiLogEntry list) list"

definition initial_store :: "'b store" where
  "initial_store = \<lparr>globalLogs = [], logListeners = [], calls = []\<rparr>"

text \<open>\<^verbatim>\<open>logListeners.forEach((listener) => listener(arg))\<close>\<close>

definition notify :: "'b ApiLogEntry list \<Rightarrow> 'b store \<Rightarrow> 'b store" where
  "notify arg s =
     fold (\<lambda>listener s'. s'\<lparr>calls := calls s' @ [(listener, arg)]\<rparr>) (logListeners s) s"

text \<open>
  \<^verbatim>\<open>const newLog: ApiLogEntry = {
    ...log,
    id: `${Date.now()}-${Math.random()}`,
    timestamp: new Date(),
  };\<close>
\<close>

definition newLog :: "ambient \<Rightarrow> 'b ApiLogInput \<Rightarrow> 'b ApiLogEntry" where
  "newLog amb input =
     ApiLogInput.extend input
       (ApiLogEntry.fields (show_nat (date_now amb) @ ''-'' @ math_random amb) (new_date amb))"

text \<open>
  \<^verbatim>\<open>export function addApiLog(log: Omit<ApiLogEntry, 'id' | 'timestamp'>) {
    const newLog: ApiLogEntry = { ... };
    globalLogs = [newLog, ...globalLogs].slice(0, 100);
    logListeners.forEach((listener) => listener([...globalLogs]));
  }\<close>
\<close>

definition addApiLog :: "ambient \<Rightarrow> 'b ApiLogInput \<Rightarrow> 'b store \<Rightarrow> 'b store" where
  "addApiLog amb input s =
     (let s' = s\<lparr>globalLogs := slice (newLog amb input # globalLogs s) 0 (Some 100)\<rparr>
      in notify (globalLogs s') s')"

text \<open>
  \<^verbatim>\<open>export function clearApiLogs() {
    globalLogs = [];
    logListeners.forEach((listener) => listener([]));
  }\<close>
\<close>

definition clearApiLogs :: "'b store \<Rightarrow> 'b store" where
  "clearApiLogs s = notify [] (s\<lparr>globalLogs := []\<rparr>)"

text \<open>
  The component's effect registers its listener and calls it once; its cleanup removes it:
  \<^verbatim>\<open>logListeners.push(listener);
  listener([...globalLogs]);
  return () => { logListeners = logListeners.filter((l) => l !== listener); };\<close>
\<close>

definition subscribe :: "listener \<Rightarrow> 'b store \<Rightarrow> 'b store" where
  "subscribe l s =
     s\<lparr>logListeners := logListeners s @ [l], calls := calls s @ [(l, globalLogs s)]\<rparr>"

definition unsubscribe :: "listener \<Rightarrow> 'b store \<Rightarrow> 'b store" where
  "unsubscribe l s = s\<lparr>logListeners := filter (\<lambda>l'. l' \<noteq> l) (logListeners s)\<rparr>"

text \<open>The calls a program can make on the store, and a sequence of them run in order.\<close>

datatype 'b store_call =
    AddApiLog ambient "'b ApiLogInput"
  | ClearApiLogs
  | Subscribe listener
  | Unsubscribe listener

fun store_step :: "'b store_call \<Rightarrow> 'b store \<Rightarrow> 'b store" where
  "store_step (AddApiLog amb input) s = addApiLog amb input s"
| "store_step ClearApiLogs s = clearApiLogs s"
| "store_step (Subscribe l) s = subscribe l s"
| "store_step (Unsubscribe l) s = unsubscribe l s"

definition run_store :: "'b store_call list \<Rightarrow> 'b store \<Rightarrow> 'b store" where
  "run_store cs s = fold store_step cs s"

section \<open>Hooks\<close>

text \<open>A thrown value (an exception or a rejected promise) carries its message.\<close>

datatype js_error = Thrown string

subsection \<open>hooks/useCopyToClipboard.ts\<close>

text \<open>
  The global \<open>navigator\<close>: in a browser it is an object with or without a \<open>clipboard\<close>;
  it may hold \<open>undefined\<close>; and outside a browser (server-side rendering) the identifier may
  not be declared at all, where evaluating it throws a \<open>ReferenceError\<close>. A clipboard is what
  \<open>writeText\<close> does with a text: the awaited promise resolves (\<open>Inr ()\<close>), or the call
  throws or the promise rejects (\<open>Inl\<close>).
\<close>

type_synonym clipboard = "string \<Rightarrow> js_error + unit"

datatype navigator = NavigatorUndeclared | NavigatorUndefined | Navigator "clipboard option"

text \<open>
  \<^verbatim>\<open>navigator?.clipboard\<close>: the optional chain yields \<open>undefined\<close> for a \<open>navigator\<close> that is
  \<open>undefined\<close>, and does not protect the evaluation of an undeclared identifier.
\<close>

fun navigator_clipboard :: "navigator \<Rightarrow> js_error + clipboard option" where
  "navigator_clipboard NavigatorUndeclared = Inl (Thrown ''ReferenceError'')"
| "navigator_clipboard NavigatorUndefined = Inr None"
| "navigator_clipboard (Navigator c) = Inr c"

text \<open>The hook's state, and the console.\<close>

record copy_state =
  copiedText :: "string option"
  warnings :: "string list"

text \<open>
  \<^verbatim>\<open>try {
    await navigator.clipboard.writeText(text);
    setCopiedText(text);
    return true;
  }\<close>
\<close>

definition copy_try :: "clipboard \<Rightarrow> string \<Rightarrow> copy_state \<Rightarrow> js_error + (bool \<times> copy_state)" where
  "copy_try writeText text st =
     (case writeText text of
        Inl e \<Rightarrow> Inl e
      | Inr _ \<Rightarrow> Inr (True, st\<lparr>copiedText := Some text\<rparr>))"

text \<open>
  \<^verbatim>\<open>const copy = useCallback(async (text: string): Promise<boolean> => {
    if (!navigator?.clipboard) {
      console.warn('Clipboard API not supported');
      return false;
    }
    try { ... } catch (error) {
      console.warn('Copy failed', error);
      setCopiedText(null);
      return false;
    }
  }, []);\<close>
  The result is the completion of the awaited call: \<open>Inr\<close> a returned value with the new
  state, \<open>Inl\<close> a rejection. The guard stands before the \<open>try\<close>, so what it throws is not
  caught.
\<close>

definition copy :: "navigator \<Rightarrow> string \<Rightarrow> copy_state \<Rightarrow> js_error + (bool \<times> copy_state)" where
  "copy nav text st =
     (case navigator_clipboard nav of
        Inl e \<Rightarrow> Inl e
      | Inr None \<Rightarrow>
          Inr (False, st\<lparr>warnings := warnings st @ [''Clipboard API not supported'']\<rparr>)
      | Inr (Some writeText) \<Rightarrow>
          (case copy_try writeText text st of
             Inr r \<Rightarrow> Inr r
           | Inl e \<Rightarrow>
               Inr (False, st\<lparr>copiedText := None, warnings := warnings st @ [''Copy failed'']\<rparr>)))"

subsection \<open>The storage hooks (useLocalStorage, useSessionStorage)\<close>

text \<open>
  The two hooks differ only in the storage object they name; \<open>useLocalStorage\<close> is shown.
  The environment of the hook: whether \<open>window\<close> exists, what \<open>getItem\<close> of the storage
  does for a key (it throws, or returns \<open>null\<close> or a string), and what \<open>JSON.parse\<close> does
  with a text (it throws or returns a value).
\<close>

record 'v storage_env =
  isBrowser :: bool
  getItem :: "string \<Rightarrow> js_error + string option"
  JSON_parse :: "string \<Rightarrow> js_error + 'v"

text \<open>
  \<^verbatim>\<open>try {
    const item = window.localStorage.getItem(key);
    return item ? (JSON.parse(item) as T) : initialValue;
  }\<close>
  A string is truthy when it is not empty.
\<close>

definition readValue_try :: "'v storage_env \<Rightarrow> string \<Rightarrow> 'v \<Rightarrow> js_error + 'v" where
  "readValue_try env key initialValue =
     (case getItem env key of
        Inl e \<Rightarrow> Inl e
      | Inr item \<Rightarrow>
          (case item of
             None \<Rightarrow> Inr initialValue
           | Some text \<Rightarrow> if text \<noteq> [] then JSON_parse env text else Inr initialValue))"

text \<open>
  \<^verbatim>\<open>const readValue = useCallback((): T => {
    if (!isBrowser) {
      return initialValue;
    }
    try { ... } catch (error) {
      console.warn(`Error reading localStorage key "${key}":`, error);
      return initialValue;
    }
  }, [initialValue, key, isBrowser]);\<close>
\<close>

definition readValue :: "'v storage_env \<Rightarrow> string \<Rightarrow> 'v \<Rightarrow> js_error + 'v" where
  "readValue env key initialValue =
     (if \<not> isBrowser env then Inr initialValue
      else (case readValue_try env key initialValue of
              Inr v \<Rightarrow> Inr v
            | Inl e \<Rightarrow> Inr initialValue))"

section \<open>Numbers\<close>

text \<open>
  A JavaScript number is an IEEE 754 binary64 value: not-a-number, an infinity with its
  sign, or a finite value given by its sign (\<open>True\<close> is negative) and its magnitude, a
  rational that is not negative; both zeros exist. A finite value is a double when its
  magnitude is left unchanged by the rounding \<open>nearest\<close> and is below \<open>2^1024\<close>. Every
  arithmetic operator computes the exact result and rounds it once.
\<close>

datatype number = NaN | Infinite bool | Finite bool rat

text \<open>The exponent of a positive rational: the integer \<open>e\<close> with \<open>2^e \<le> m < 2^(e + 1)\<close>.\<close>

definition ilog2 :: "rat \<Rightarrow> int" where
  "ilog2 m =
     (let (p, q) = quotient_of m; d = bitlen p - bitlen q
      in if 2 powi d \<le> m then d else d - 1)"

text \<open>Rounding to the nearest integer, a tie to the even one.\<close>

definition round_half_even :: "rat \<Rightarrow> int" where
  "round_half_even q =
     (let f = \<lfloor>q\<rfloor>; r = q - of_int f
      in if r < 1 / 2 then f
         else if 1 / 2 < r then f + 1
         else if even f then f else f + 1)"

text \<open>
  Rounding of a magnitude to the nearest binary64 magnitude (53 significant bits, exponent
  at least \<open>-1022\<close>, so the spacing is never below \<open>2^-1074\<close>), a tie to the even
  significand; a result of \<open>2^1024\<close> or more overflows to the infinity.
\<close>

definition nearest :: "rat \<Rightarrow> rat" where
  "nearest m =
     (if m = 0 then 0
      else let e = max (ilog2 m) (- 1022); u = 2 powi (e - 52)
           in of_int (round_half_even (m / u)) * u)"

definition fl :: "bool \<Rightarrow> rat \<Rightarrow> number" where
  "fl s m = (let r = nearest m in if 2 ^ 1024 \<le> r then Infinite s else Finite s r)"

definition val :: "bool \<Rightarrow> rat \<Rightarrow> rat" where
  "val s m = (if s then - m else m)"

text \<open>The operators \<open>+\<close>, unary \<open>-\<close>, binary \<open>-\<close>, \<open>*\<close> and \<open>/\<close>.\<close>

fun num_add :: "number \<Rightarrow> number \<Rightarrow> number" where
  "num_add NaN _ = NaN"
| "num_add _ NaN = NaN"
| "num_add (Infinite s) (Infinite t) = (if s = t then Infinite s else NaN)"
| "num_add (Infinite s) (Finite _ _) = Infinite s"
| "num_add (Finite _ _) (Infinite t) = Infinite t"
| "num_add (Finite s m) (Finite t n) =
     (let v = val s m + val t n
      in if v = 0 then Finite (s \<and> t) 0 else fl (v < 0) \<bar>v\<bar>)"

fun num_neg :: "number \<Rightarrow> number" where
  "num_neg NaN = NaN"
| "num_neg (Infinite s) = Infinite (\<not> s)"
| "num_neg (Finite s m) = Finite (\<not> s) m"

definition num_sub :: "number \<Rightarrow> number \<Rightarrow> number" where
  "num_sub a b = num_add a (num_neg b)"

fun num_mul :: "number \<Rightarrow> number \<Rightarrow> number" where
  "num_mul NaN _ = NaN"
| "num_mul _ NaN = NaN"
| "num_mul (Infinite s) (Infinite t) = Infinite (s \<noteq> t)"
| "num_mul (Infinite s) (Finite t n) = (if n = 0 then NaN else Infinite (s \<noteq> t))"
| "num_mul (Finite s m) (Infinite t) = (if m = 0 then NaN else Infinite (s \<noteq> t))"
| "num_mul (Finite s m) (Finite t n) = fl (s \<noteq> t) (m * n)"

fun num_div :: "number \<Rightarrow> number \<Rightarrow> number" where
  "num_div NaN _ = NaN"
| "num_div _ NaN = NaN"
| "num_div (Infinite s) (Infinite t) = NaN"
| "num_div (Infinite s) (Finite t n) = Infinite (s \<noteq> t)"
| "num_div (Finite s m) (Infinite t) = Finite (s \<noteq> t) 0"
| "num_div (Finite s m) (Finite t n) =
     (if n = 0 then (if m = 0 then NaN else Infinite (s \<noteq> t))
      else fl (s \<noteq> t) (m / n))"

text \<open>The comparisons \<open><=\<close> and \<open><\<close>: false when an operand is not a number.\<close>

fun num_le :: "number \<Rightarrow> number \<Rightarrow> bool" where
  "num_le NaN _ = False"
| "num_le _ NaN = False"
| "num_le (Infinite s) (Infinite t) = (s \<or> \<not> t)"
| "num_le (Infinite s) (Finite _ _) = s"
| "num_le (Finite _ _) (Infinite t) = (\<not> t)"
| "num_le (Finite s m) (Finite t n) = (val s m \<le> val t n)"

fun num_lt :: "number \<Rightarrow> number \<Rightarrow> bool" where
  "num_lt NaN _ = False"
| "num_lt _ NaN = False"
| "num_lt (Infinite s) (Infinite t) = (s \<and> \<not> t)"
| "num_lt (Infinite s) (Finite _ _) = s"
| "num_lt (Finite _ _) (Infinite t) = (\<not> t)"
| "num_lt (Finite s m) (Finite t n) = (val s m < val t n)"

fun is_zero :: "number \<Rightarrow> bool" where
  "is_zero (Finite s m) = (m = 0)"
| "is_zero _ = False"

text \<open>
  \<open>Math.round\<close>: the integer nearest to the value, a tie upwards; the sign of a zero result
  is the sign of the argument.
\<close>

fun Math_round :: "number \<Rightarrow> number" where
  "Math_round NaN = NaN"
| "Math_round (Infinite s) = Infinite s"
| "Math_round (Finite s m) =
     (let r = \<lfloor>val s m + 1 / 2\<rfloor>
      in if r = 0 then Finite s 0 else Finite (r < 0) (of_int \<bar>r\<bar>))"

subsection \<open>The price calculations\<close>

text \<open>
  \<^verbatim>\<open>export function calculateDiscount(originalPrice: number, discountedPrice: number): number {
    if (originalPrice <= 0) {
      return 0;
    }
    const discount = ((originalPrice - discountedPrice) / originalPrice) * 100;
    return Math.round(discount * 100) / 100;
  }\<close>
  A run of the function gives the returned number and the divisors of the divisions it
  carried out, in order: every \<open>/\<close> of the source is a \<open>divide\<close>, which computes the
  quotient and records its divisor.
\<close>

definition divide :: "number \<Rightarrow> number \<Rightarrow> number list \<Rightarrow> number \<times> number list" where
  "divide a b divisors = (num_div a b, divisors @ [b])"

definition calculateDiscount_run :: "number \<Rightarrow> number \<Rightarrow> number \<times> number list" where
  "calculateDiscount_run originalPrice discountedPrice =
     (if num_le originalPrice (Finite False 0) then (Finite False 0, [])
      else
        let (quotient, divisors1) = divide (num_sub originalPrice discountedPrice) originalPrice [];
            discount = num_mul quotient (Finite False 100);
            (result, divisors2) =
              divide (Math_round (num_mul discount (Finite False 100))) (Finite False 100)
                divisors1
        in (result, divisors2))"

definition calculateDiscount :: "number \<Rightarrow> number \<Rightarrow> number" where
  "calculateDiscount originalPrice discountedPrice =
     fst (calculateDiscount_run originalPrice discountedPrice)"

definition calculateDiscount_divisors :: "number \<Rightarrow> number \<Rightarrow> number list" where
  "calculateDiscount_divisors originalPrice discountedPrice =
     snd (calculateDiscount_run originalPrice discountedPrice)"

text \<open>
  \<^verbatim>\<open>export function calculateDiscountedPrice(originalPrice: number, discountPercent: number): number {
    const discount = (originalPrice * discountPercent) / 100;
    return Math.round((originalPrice - discount) * 100) / 100;
  }\<close>
\<close>

definition calculateDiscountedPrice :: "number \<Rightarrow> number \<Rightarrow> number" where
  "calculateDiscountedPrice originalPrice discountPercent =
     (let discount = num_div (num_mul originalPrice discountPercent) (Finite False 100)
      in num_div
           (Math_round (num_mul (num_sub originalPrice discount) (Finite False 100)))
           (Finite False 100))"

section \<open>The form inspector (components/dev/FormDevTools/FormDevTools.tsx)\<close>

subsection \<open>Values\<close>

text \<open>
  The snapshots \<open>values\<close> and \<open>originalValues\<close> have the type \<^verbatim>\<open>Record<string, any>\<close>.
  A value is \<open>undefined\<close>, \<open>null\<close>, a boolean, a number, a string, an array without holes,
  a plain object, or a host value. A plain object is the list of its own enumerable
  properties, all of them data properties, in the order of \<open>Object.keys\<close> (keys distinct);
  neither a plain object nor an array has a \<open>toJSON\<close> method, its own or inherited. Every
  other value (a function, a symbol, a BigInt, a \<open>Date\<close>, an instance of a class, a proxy,
  an object with a getter or with \<open>toJSON\<close>) is a host value, known by a handle.
\<close>

datatype jsval =
    JUndefined
  | JNull
  | JBool bool
  | JNum number
  | JStr string
  | JArr "jsval list"
  | JObj "(string \<times> jsval) list"
  | JHost nat

text \<open>
  What the engine does beyond plain data is a parameter of the model:
  \<^item> \<open>Number_toString\<close>: the digits \<open>JSON.stringify\<close> prints for a finite number;
  \<^item> \<open>prototype_get\<close>: what the read of a key finds that is not an own enumerable property
    of a plain value, that is, along its prototype chain (\<open>constructor\<close>, \<open>toString\<close>, and so
    on); \<open>undefined\<close> when there is nothing, and a getter may throw;
  \<^item> \<open>host_truthy\<close>, \<open>host_get\<close>, \<open>host_stringify\<close>: the conversion to a boolean of a host
    value, the read of a key of it, and its serialisation by \<open>JSON.stringify\<close>, which is a
    text, \<open>undefined\<close> (for a function or a symbol), or throws (for a BigInt).
\<close>

record host =
  Number_toString :: "number \<Rightarrow> string"
  prototype_get :: "jsval \<Rightarrow> string \<Rightarrow> js_error + jsval"
  host_truthy :: "nat \<Rightarrow> bool"
  host_get :: "nat \<Rightarrow> string \<Rightarrow> js_error + jsval"
  host_stringify :: "nat \<Rightarrow> js_error + string option"

text \<open>The conversion to a boolean that \<open>!x\<close> and \<open>x ? a : b\<close> apply.\<close>

fun truthy :: "host \<Rightarrow> jsval \<Rightarrow> bool" where
  "truthy h JUndefined = False"
| "truthy h JNull = False"
| "truthy h (JBool b) = b"
| "truthy h (JNum x) = (x \<noteq> NaN \<and> \<not> is_zero x)"
| "truthy h (JStr s) = (s \<noteq> [])"
| "truthy h (JArr xs) = True"
| "truthy h (JObj kvs) = True"
| "truthy h (JHost v) = host_truthy h v"

text \<open>
  The own indexed properties of a plain value: the properties of an object, the indices
  of an array with its elements, the indices of a string with its characters.
\<close>

fun own_entries :: "jsval \<Rightarrow> (string \<times> jsval) list" where
  "own_entries (JObj kvs) = kvs"
| "own_entries (JArr xs) = zip (map show_nat [0..<length xs]) xs"
| "own_entries (JStr s) = zip (map show_nat [0..<length s]) (map (\<lambda>c. JStr [c]) s)"
| "own_entries v = []"

text \<open>The \<open>length\<close> of an array or a string.\<close>

fun own_length :: "jsval \<Rightarrow> nat option" where
  "own_length (JArr xs) = Some (length xs)"
| "own_length (JStr s) = Some (length s)"
| "own_length v = None"

text \<open>
  \<^verbatim>\<open>v?.[key]\<close>: \<open>undefined\<close> on \<open>undefined\<close> and \<open>null\<close>; on a plain value the own property,
  the \<open>length\<close> of an array or a string, and otherwise what the prototype chain gives; on a
  host value what the host gives.
\<close>

definition get_prop :: "host \<Rightarrow> jsval \<Rightarrow> string \<Rightarrow> js_error + jsval" where
  "get_prop h v key =
     (case v of
        JUndefined \<Rightarrow> Inr JUndefined
      | JNull \<Rightarrow> Inr JUndefined
      | JHost x \<Rightarrow> host_get h x key
      | _ \<Rightarrow>
          (case map_of (own_entries v) key of
             Some x \<Rightarrow> Inr x
           | None \<Rightarrow>
               (case own_length v of
                  Some n \<Rightarrow>
                    if key = ''length'' then Inr (JNum (Finite False (of_nat n)))
                    else prototype_get h v key
                | None \<Rightarrow> prototype_get h v key)))"

subsection \<open>JSON.stringify\<close>

text \<open>
  The quoting of a string: the quotation mark and the backslash are escaped, the control
  characters below \<open>0x20\<close> are written \<^verbatim>\<open>\b \t \n \f \r\<close> or \<^verbatim>\<open>\u00XX\<close>.
\<close>

definition hex_digit :: "nat \<Rightarrow> char" where
  "hex_digit n = ''0123456789abcdef'' ! n"

definition escape_char :: "char \<Rightarrow> string" where
  "escape_char c =
     (let n = (of_char c :: nat)
      in if n = 0x22 then [CHR 0x5C, CHR 0x22]
         else if n = 0x5C then [CHR 0x5C, CHR 0x5C]
         else if n = 0x08 then [CHR 0x5C, CHR ''b'']
         else if n = 0x09 then [CHR 0x5C, CHR ''t'']
         else if n = 0x0A then [CHR 0x5C, CHR ''n'']
         else if n = 0x0C then [CHR 0x5C, CHR ''f'']
         else if n = 0x0D then [CHR 0x5C, CHR ''r'']
         else if n < 0x20 then
           [CHR 0x5C, CHR ''u'', CHR ''0'', CHR ''0'', hex_digit (n div 16), hex_digit (n mod 16)]
         else [c])"

definition quote :: "string \<Rightarrow> string" where
  "quote s = [CHR 0x22] @ concat (map escape_char s) @ [CHR 0x22]"

text \<open>
  \<open>JSON.stringify(v)\<close> with one argument: a text, \<open>undefined\<close> (\<open>None\<close>), or an exception.
  The result is \<open>undefined\<close> for \<open>undefined\<close>; \<open>NaN\<close> and the infinities are printed as
  \<open>null\<close>; an element of an array that serialises to \<open>undefined\<close> is printed as \<open>null\<close>, a
  property of an object that serialises to \<open>undefined\<close> is left out; the first exception
  of an element or a property ends the serialisation.
\<close>

fun JSON_stringify :: "host \<Rightarrow> jsval \<Rightarrow> js_error + string option"
  and stringify_elements :: "host \<Rightarrow> jsval list \<Rightarrow> js_error + string list"
  and stringify_properties :: "host \<Rightarrow> (string \<times> jsval) list \<Rightarrow> js_error + string list"
where
  "JSON_stringify h JUndefined = Inr None"
| "JSON_stringify h JNull = Inr (Some ''null'')"
| "JSON_stringify h (JBool b) = Inr (Some (if b then ''true'' else ''false''))"
| "JSON_stringify h (JNum x) =
     Inr (Some (case x of Finite s m \<Rightarrow> Number_toString h x | _ \<Rightarrow> ''null''))"
| "JSON_stringify h (JStr s) = Inr (Some (quote s))"
| "JSON_stringify h (JArr xs) =
     (case stringify_elements h xs of
        Inl e \<Rightarrow> Inl e
      | Inr ts \<Rightarrow> Inr (Some (''['' @ join '','' ts @ '']'')))"
| "JSON_stringify h (JObj kvs) =
     (case stringify_properties h kvs of
        Inl e \<Rightarrow> Inl e
      | Inr ts \<Rightarrow> Inr (Some (''{'' @ join '','' ts @ ''}'')))"
| "JSON_stringify h (JHost x) = host_stringify h x"
| "stringify_elements h [] = Inr []"
| "stringify_elements h (x # xs) =
     (case JSON_stringify h x of
        Inl e \<Rightarrow> Inl e
      | Inr t \<Rightarrow>
          (case stringify_elements h xs of
             Inl e \<Rightarrow> Inl e
           | Inr ts \<Rightarrow> Inr ((case t of None \<Rightarrow> ''null'' | Some s \<Rightarrow> s) # ts)))"
| "stringify_properties h [] = Inr []"
| "stringify_properties h ((k, v) # kvs) =
     (case JSON_stringify h v of
        Inl e \<Rightarrow> Inl e
      | Inr t \<Rightarrow>
          (case stringify_properties h kvs of
             Inl e \<Rightarrow> Inl e
           | Inr ts \<Rightarrow>
               Inr ((case t of None \<Rightarrow> [] | Some s \<Rightarrow> [quote k @ '':'' @ s]) @ ts)))"

subsection \<open>getChangedFields\<close>

text \<open>
  \<^verbatim>\<open>const getNestedValue = (obj: Record<string, any>, path: string) => {
    return path.split('.').reduce((acc, key) => acc?.[key], obj);
  };\<close>
  A read that throws ends the reduction.
\<close>

definition getNestedValue :: "host \<Rightarrow> jsval \<Rightarrow> string \<Rightarrow> js_error + jsval" where
  "getNestedValue h obj path =
     foldl (\<lambda>acc key. case acc of Inl e \<Rightarrow> Inl e | Inr a \<Rightarrow> get_prop h a key)
       (Inr obj) (split CHR ''.'' path)"

text \<open>An entry of the result, \<^verbatim>\<open>{ from: originalValue, to: currentValue }\<close>.\<close>

record change =
  from_value :: jsval
  to_value :: jsval

text \<open>\<^verbatim>\<open>const fullPath = prefix ? `${prefix}.${key}` : key;\<close>\<close>

definition fullPath :: "string \<Rightarrow> string \<Rightarrow> string" where
  "fullPath prefix key = (if prefix \<noteq> [] then prefix @ ''.'' @ key else key)"

text \<open>
  The body of the loop for a key whose marker is literally \<open>true\<close>, in the order of
  evaluation of the source; the comparison gives the entry to be written, if any:
  \<^verbatim>\<open>const currentValue = getNestedValue(values, fullPath);
  const originalValue = originalValues ? getNestedValue(originalValues, fullPath) : undefined;
  if (JSON.stringify(currentValue) !== JSON.stringify(originalValue)) {
    changed[fullPath] = { from: originalValue, to: currentValue };
  }\<close>
\<close>

definition changed_entry :: "host \<Rightarrow> jsval \<Rightarrow> jsval \<Rightarrow> string \<Rightarrow> js_error + change option" where
  "changed_entry h values originalValues path =
     (case getNestedValue h values path of
        Inl e \<Rightarrow> Inl e
      | Inr currentValue \<Rightarrow>
          (case (if truthy h originalValues then getNestedValue h originalValues path
                 else Inr JUndefined) of
             Inl e \<Rightarrow> Inl e
           | Inr originalValue \<Rightarrow>
               (case JSON_stringify h currentValue of
                  Inl e \<Rightarrow> Inl e
                | Inr a \<Rightarrow>
                    (case JSON_stringify h originalValue of
                       Inl e \<Rightarrow> Inl e
                     | Inr b \<Rightarrow>
                         Inr (if a \<noteq> b
                              then Some \<lparr>from_value = originalValue, to_value = currentValue\<rparr>
                              else None)))))"

definition compare_leaf ::
  "host \<Rightarrow> jsval \<Rightarrow> jsval \<Rightarrow> string \<Rightarrow> (string \<rightharpoonup> change)
     \<Rightarrow> js_error + (string \<rightharpoonup> change)" where
  "compare_leaf h values originalValues path changed =
     (case changed_entry h values originalValues path of
        Inl e \<Rightarrow> Inl e
      | Inr None \<Rightarrow> Inr changed
      | Inr (Some entry) \<Rightarrow> Inr (changed(path \<mapsto> entry)))"

text \<open>
  The marker tree \<open>formState.dirtyFields\<close>, as the traversal reads it with \<open>Object.keys\<close>,
  \<open>dirty[key]\<close>, \<open>=== true\<close> and \<open>typeof\<close>: a marker is the literal \<open>true\<close>; or a value that
  is walked into (below the top an object or an array, at the top any truthy value), given
  by its own enumerable properties in the order of \<open>Object.keys\<close> (keys distinct, each with
  the marker that \<open>dirty[key]\<close> reads); or any other value. The tree is finite and its
  properties are data properties.
\<close>

datatype marker = MTrue | MNode "(string \<times> marker) list" | MOther

text \<open>
  \<^verbatim>\<open>const processDirtyFields = (dirty: Record<string, any>, prefix = '') => {
    Object.keys(dirty).forEach((key) => {
      const fullPath = prefix ? `${prefix}.${key}` : key;
      const dirtyValue = dirty[key];
      if (dirtyValue === true) {
        ...
      } else if (typeof dirtyValue === 'object' && dirtyValue !== null) {
        processDirtyFields(dirtyValue, fullPath);
      }
    });
  };\<close>
  The loop over the keys, with \<open>dirty[key]\<close> for each, is the loop \<open>process_entries\<close> over
  the properties. The object \<open>changed\<close>, which the loop updates in place, is passed through
  it; an exception ends the loop.
\<close>

fun processDirtyFields ::
    "host \<Rightarrow> jsval \<Rightarrow> jsval \<Rightarrow> marker \<Rightarrow> string \<Rightarrow> (string \<rightharpoonup> change)
       \<Rightarrow> js_error + (string \<rightharpoonup> change)"
  and process_entries ::
    "host \<Rightarrow> jsval \<Rightarrow> jsval \<Rightarrow> (string \<times> marker) list \<Rightarrow> string \<Rightarrow> (string \<rightharpoonup> change)
       \<Rightarrow> js_error + (string \<rightharpoonup> change)"
where
  "processDirtyFields h values originalValues (MNode entries) prefix changed =
     process_entries h values originalValues entries prefix changed"
| "processDirtyFields h values originalValues MTrue prefix changed = Inr changed"
| "processDirtyFields h values originalValues MOther prefix changed = Inr changed"
| "process_entries h values originalValues [] prefix changed = Inr changed"
| "process_entries h values originalValues ((key, dirtyValue) # rest) prefix changed =
     (case (case dirtyValue of
              MTrue \<Rightarrow> compare_leaf h values originalValues (fullPath prefix key) changed
            | MNode entries \<Rightarrow>
                processDirtyFields h values originalValues dirtyValue (fullPath prefix key)
                  changed
            | MOther \<Rightarrow> Inr changed) of
        Inl e \<Rightarrow> Inl e
      | Inr changed' \<Rightarrow> process_entries h values originalValues rest prefix changed')"

text \<open>
  \<^verbatim>\<open>const getChangedFields = () => {
    if (!formState.dirtyFields || !values) return {};
    const changed: Record<string, any> = {};
    ...
    processDirtyFields(formState.dirtyFields);
    return changed;
  };\<close>
  The component's properties \<open>formState.dirtyFields\<close>, \<open>values\<close> and \<open>originalValues\<close> are
  the arguments. A \<open>dirtyFields\<close> that is \<open>undefined\<close> or otherwise falsy is \<open>None\<close>; a
  snapshot that is not supplied is \<open>JUndefined\<close>.
\<close>

definition getChangedFields ::
  "host \<Rightarrow> marker option \<Rightarrow> jsval \<Rightarrow> jsval \<Rightarrow> js_error + (string \<rightharpoonup> change)" where
  "getChangedFields h dirtyFields values originalValues =
     (case dirtyFields of
        None \<Rightarrow> Inr Map.empty
      | Some dirty \<Rightarrow>
          if \<not> truthy h values then Inr Map.empty
          else processDirtyFields h values originalValues dirty [] Map.empty)"

subsection \<open>The words of the specification\<close>

text \<open>
  A chain of keys leads from the root of the marker tree to a marker that is literally
  \<open>true\<close>: the last key names a property whose marker is \<open>true\<close>, every key before it a
  property whose marker is walked into.
\<close>

inductive marked :: "marker \<Rightarrow> string list \<Rightarrow> bool" where
  leaf: "(key, MTrue) \<in> set entries \<Longrightarrow> marked (MNode entries) [key]"
| node: "(key, MNode below) \<in> set entries \<Longrightarrow> marked (MNode below) keys
         \<Longrightarrow> marked (MNode entries) (key # keys)"

text \<open>The dot-joined path of a chain of keys.\<close>

definition dot_joined :: "string list \<Rightarrow> string" where
  "dot_joined keys = join ''.'' keys"


subsection \<open>Devices of the proofs\<close>




section \<open>String and form utilities\<close>

subsection \<open>string/manipulation.ts\<close>

text \<open>
  \<^verbatim>\<open>export function truncate(str: string, length: number, suffix: string = '...'): string {
    if (str.length <= length) return str;
    return str.slice(0, length) + suffix;
  }\<close>
  The optional third parameter is an \<open>option\<close>: \<open>None\<close> is the call with two arguments.
  The length is an integer here.
\<close>

definition truncate :: "string \<Rightarrow> int \<Rightarrow> string option \<Rightarrow> string" where
  "truncate str len suffix_arg =
     (let suffix = (case suffix_arg of None \<Rightarrow> ''...'' | Some x \<Rightarrow> x)
      in if int (length str) \<le> len then str
         else slice str 0 (Some len) @ suffix)"

subsection \<open>form/formatter.ts\<close>

text \<open>The character class \<^verbatim>\<open>[0-9]\<close>.\<close>

definition is_digit :: "char \<Rightarrow> bool" where
  "is_digit c = (c \<in> set ''0123456789'')"

text \<open>
  \<^verbatim>\<open>export function formatPhoneNumber(value: string): string {
    const cleaned = value.replace(/[^0-9]/g, '');
    if (cleaned.length <= 3) return cleaned;
    if (cleaned.length <= 7) {
      return `${cleaned.slice(0, 3)}-${cleaned.slice(3)}`;
    }
    if (cleaned.length <= 11) {
      return `${cleaned.slice(0, 3)}-${cleaned.slice(3, 7)}-${cleaned.slice(7)}`;
    }
    return `${cleaned.slice(0, 3)}-${cleaned.slice(3, 7)}-${cleaned.slice(7, 11)}`;
  }\<close>
\<close>

definition formatPhoneNumber :: "string \<Rightarrow> string" where
  "formatPhoneNumber value =
     (let cleaned = filter is_digit value
      in if length cleaned \<le> 3 then cleaned
         else if length cleaned \<le> 7 then
           slice cleaned 0 (Some 3) @ ''-'' @ slice cleaned 3 None
         else if length cleaned \<le> 11 then
           slice cleaned 0 (Some 3) @ ''-'' @ slice cleaned 3 (Some 7) @ ''-''
             @ slice cleaned 7 None
         else
           slice cleaned 0 (Some 3) @ ''-'' @ slice cleaned 3 (Some 7) @ ''-''
             @ slice cleaned 7 (Some 11))"

text \<open>
  The three layouts of the result, on the digits alone (a proof device: the digits laid
  out with \<open>take\<close> and \<open>drop\<close>).
\<close>

definition phone_layout :: "string \<Rightarrow> string" where
  "phone_layout c =
     (if length c \<le> 3 then c
      else if length c \<le> 7 then take 3 c @ ''-'' @ drop 3 c
      else take 3 c @ ''-'' @ take 4 (drop 3 c) @ ''-'' @ take 4 (drop 7 c))"

section \<open>Sample inputs\<close>

definition sample_input :: "string ApiLogInput" where
  "sample_input = \<lparr>method = ''GET'', url = ''/api/users'', status = Some 200,
     statusText = Some ''OK'', duration = Some 12, requestBody = None,
     responseBody = Some ''[]'', error = None\<rparr>"

definition sample_ambient :: ambient where
  "sample_ambient =
     \<lparr>date_now = 1000, math_random = ''0.5'', new_date = 1001\<rparr>"

definition full_store :: "string store" where
  "full_store = \<lparr>globalLogs = replicate 100 (newLog sample_ambient sample_input),
     logListeners = [0, 1], calls = []\<rparr>"

text \<open>A clipboard that accepts every text, and one that refuses every text.\<close>

definition granting_clipboard :: clipboard where
  "granting_clipboard = (\<lambda>text. Inr ())"

definition refusing_clipboard :: clipboard where
  "refusing_clipboard = (\<lambda>text. Inl (Thrown ''NotAllowedError''))"

definition fresh_copy_state :: copy_state where
  "fresh_copy_state = \<lparr>copiedText = None, warnings = []\<rparr>"

text \<open>
  A storage that holds a broken text under \<open>username\<close>, the text \<open>7\<close> under \<open>count\<close>, throws
  for \<open>locked\<close> and has no other key; \<open>JSON.parse\<close> restricted to the texts it is given here
  (the value type is \<open>int\<close>).
\<close>

definition sample_storage :: "int storage_env" where
  "sample_storage =
     \<lparr>isBrowser = True,
      getItem = (\<lambda>key. if key = ''username'' then Inr (Some ''{bad'')
                       else if key = ''count'' then Inr (Some ''7'')
                       else if key = ''locked'' then Inl (Thrown ''SecurityError'')
                       else Inr None),
      JSON_parse = (\<lambda>text. if text = ''7'' then Inr 7 else Inl (Thrown ''SyntaxError''))\<rparr>"

text \<open>
  A host that prints a number by the digits of its integer part (right for the small
  whole numbers of the samples), in which a plain object inherits one property,
  \<open>constructor\<close>, the function \<open>Object\<close> (handle \<open>0\<close>) whose \<open>name\<close> is \<open>Object\<close>, and in
  which every other handle is a BigInt: a function serialises to \<open>undefined\<close>, a BigInt
  throws.
\<close>

definition sample_host :: host where
  "sample_host =
     \<lparr>Number_toString =
        (\<lambda>x. case x of
               Finite s m \<Rightarrow> (if s \<and> m \<noteq> 0 then ''-'' else []) @ show_nat (nat \<lfloor>m\<rfloor>)
             | _ \<Rightarrow> []),
      prototype_get =
        (\<lambda>v key. case v of
                   JObj kvs \<Rightarrow> if key = ''constructor'' then Inr (JHost 0) else Inr JUndefined
                 | _ \<Rightarrow> Inr JUndefined),
      host_truthy = (\<lambda>x. True),
      host_get = (\<lambda>x key. if x = 0 \<and> key = ''name'' then Inr (JStr ''Object'')
                          else Inr JUndefined),
      host_stringify = (\<lambda>x. if x = 0 then Inr None else Inl (Thrown ''TypeError''))\<rparr>"

text \<open>
  The specification's example of a form: the marker tree \<^verbatim>\<open>{a: {b: true}}\<close>, the current
  values \<^verbatim>\<open>{a: {b: 2}}\<close> and the original values \<^verbatim>\<open>{a: {b: 1}}\<close>.
\<close>

definition example_dirtyFields :: marker where
  "example_dirtyFields = MNode [(''a'', MNode [(''b'', MTrue)])]"

definition example_values :: jsval where
  "example_values = JObj [(''a'', JObj [(''b'', JNum (Finite False 2))])]"

definition example_originalValues :: jsval where
  "example_originalValues = JObj [(''a'', JObj [(''b'', JNum (Finite False 1))])]"

text \<open>
  A form whose top-level field has the empty name: \<^verbatim>\<open>{"": {b: true}}\<close>,
  \<^verbatim>\<open>{"": {b: "new"}}\<close> and \<^verbatim>\<open>{"": {b: "old"}}\<close>.
\<close>

definition unnamed_dirtyFields :: marker where
  "unnamed_dirtyFields = MNode [('''', MNode [(''b'', MTrue)])]"

definition unnamed_values :: jsval where
  "unnamed_values = JObj [('''', JObj [(''b'', JStr ''new'')])]"

definition unnamed_originalValues :: jsval where
  "unnamed_originalValues = JObj [('''', JObj [(''b'', JStr ''old'')])]"


definition cleared_values :: jsval where
  "cleared_values = JObj [(''c'', JStr ''x'')]"

text \<open>
  A form whose markers name an inherited property: markers \<^verbatim>\<open>{constructor: {name: true}}\<close>
  over the values \<^verbatim>\<open>{c: "x"}\<close>.
\<close>

definition inherited_dirtyFields :: marker where
  "inherited_dirtyFields = MNode [(''constructor'', MNode [(''name'', MTrue)])]"

section \<open>Properties of the string utilities\<close>

lemma slice_to_nat: "slice s (int a) (Some (int b)) = take (b - a) (drop a s)"
  by (auto simp: slice_def Let_def min_def nat_diff_distrib')

lemma slice_from_nat: "slice s (int a) None = drop a s"
  by (auto simp: slice_def Let_def min_def)

lemma slice_prefix: "slice s 0 (Some (int n)) = take n s"
  using slice_to_nat [of s 0 n] by simp

lemma slice_phone:
  "slice s 0 (Some 3) = take 3 s"
  "slice s 3 (Some 7) = take 4 (drop 3 s)"
  "slice s 7 (Some 11) = take 4 (drop 7 s)"
  "slice s 3 None = drop 3 s"
  "slice s 7 None = drop 7 s"
  using slice_to_nat [of s 3 7] slice_to_nat [of s 7 11] slice_to_nat [of s 0 3]
    slice_from_nat [of s 3] slice_from_nat [of s 7]
  by simp_all

text \<open>
  C6: for every string \<open>s\<close> and natural number \<open>n\<close>, \<open>truncate(s, n)\<close> is \<open>s\<close> when
  \<open>s.length <= n\<close>, and otherwise the first \<open>n\<close> characters of \<open>s\<close> followed by the suffix
  (\<open>"..."\<close> when none is passed); \<open>truncate("Hello World", 5)\<close> is \<open>"Hello..."\<close>.
\<close>

theorem truncate_spec:
  "(length s \<le> n \<longrightarrow> truncate s (int n) suffix = s)
   \<and> (n < length s \<longrightarrow>
        truncate s (int n) suffix
          = take n s @ (case suffix of None \<Rightarrow> ''...'' | Some x \<Rightarrow> x))
   \<and> truncate ''Hello World'' 5 None = ''Hello...''"
proof -
  have "truncate ''Hello World'' 5 None = ''Hello...''"
    by (simp add: truncate_def slice_def)
  then show ?thesis
    by (simp add: truncate_def slice_prefix)
qed

theorem truncate_spec_witness:
  "length ''Hello World'' \<le> (20::nat)
   \<and> truncate ''Hello World'' 20 None = ''Hello World''
   \<and> (5::nat) < length ''Hello World''
   \<and> truncate ''Hello World'' 5 (Some ''---'') = ''Hello---''"
  using truncate_spec [of "''Hello World''" 20 None]
    truncate_spec [of "''Hello World''" 5 "Some ''---''"]
  by simp

lemma formatPhoneNumber_layout: "formatPhoneNumber x = phone_layout (filter is_digit x)"
  by (simp add: formatPhoneNumber_def phone_layout_def slice_phone Let_def)

lemma dash_not_digit: "\<not> is_digit CHR ''-''"
  by (simp add: is_digit_def)

lemma digits_of_layout:
  assumes "\<forall>ch \<in> set c. is_digit ch"
  shows "filter is_digit (phone_layout c) = take 11 c"
proof -
  have f: "filter is_digit c = c"
    "\<And>n. filter is_digit (take n c) = take n c"
    "\<And>n. filter is_digit (drop n c) = drop n c"
    "\<And>n m. filter is_digit (take n (drop m c)) = take n (drop m c)"
    using assms by (auto intro!: filter_True dest: in_set_takeD in_set_dropD)
  have a: "take 3 c @ take 4 (drop 3 c) = take 7 c"
    using take_add [of 3 4 c] by simp
  have b: "take 7 c @ take 4 (drop 7 c) = take 11 c"
    using take_add [of 7 4 c] by simp
  have "take 3 c @ take 4 (drop 3 c) @ take 4 (drop 7 c)
          = (take 3 c @ take 4 (drop 3 c)) @ take 4 (drop 7 c)"
    by simp
  also have "\<dots> = take 11 c"
    by (simp only: a b)
  finally have t: "take 3 c @ take 4 (drop 3 c) @ take 4 (drop 7 c) = take 11 c" .
  then show ?thesis
    by (simp add: phone_layout_def f dash_not_digit)
qed

lemma layout_take11: "phone_layout (take 11 c) = phone_layout c"
  by (auto simp: phone_layout_def min_def take_drop)

text \<open>
  C4: \<open>formatPhoneNumber("01012345678")\<close> is \<open>"010-1234-5678"\<close>, and for every string \<open>x\<close>
  formatting is idempotent: \<open>formatPhoneNumber(formatPhoneNumber(x))\<close> is
  \<open>formatPhoneNumber(x)\<close>.
\<close>

theorem formatPhoneNumber_idempotent:
  "formatPhoneNumber ''01012345678'' = ''010-1234-5678''
   \<and> (\<forall>x. formatPhoneNumber (formatPhoneNumber x) = formatPhoneNumber x)"
proof -
  have ex: "formatPhoneNumber ''01012345678'' = ''010-1234-5678''"
    by (simp add: formatPhoneNumber_def slice_phone is_digit_def)
  have idem: "formatPhoneNumber (formatPhoneNumber x) = formatPhoneNumber x" for x
  proof -
    have "filter is_digit (phone_layout (filter is_digit x)) = take 11 (filter is_digit x)"
      by (rule digits_of_layout) simp
    then show ?thesis
      by (simp add: formatPhoneNumber_layout layout_take11)
  qed
  from ex idem show ?thesis by blast
qed

section \<open>Properties of the API log store\<close>

lemma fold_calls_fields:
  "globalLogs (fold (\<lambda>l s'. s'\<lparr>calls := calls s' @ [(l, a)]\<rparr>) ls s) = globalLogs s"
  "logListeners (fold (\<lambda>l s'. s'\<lparr>calls := calls s' @ [(l, a)]\<rparr>) ls s) = logListeners s"
  "calls (fold (\<lambda>l s'. s'\<lparr>calls := calls s' @ [(l, a)]\<rparr>) ls s)
     = calls s @ map (\<lambda>l. (l, a)) ls"
  by (induction ls arbitrary: s) simp_all

lemma notify_fields:
  "globalLogs (notify a s) = globalLogs s"
  "logListeners (notify a s) = logListeners s"
  "calls (notify a s) = calls s @ map (\<lambda>l. (l, a)) (logListeners s)"
  by (simp_all add: notify_def fold_calls_fields)

lemma addApiLog_logs:
  "globalLogs (addApiLog amb input s) = take 100 (newLog amb input # globalLogs s)"
  using slice_prefix [of "newLog amb input # globalLogs s" 100]
  by (simp add: addApiLog_def Let_def notify_fields)

lemma addApiLog_calls:
  "calls (addApiLog amb input s)
     = calls s @ map (\<lambda>l. (l, globalLogs (addApiLog amb input s))) (logListeners s)"
  by (simp add: addApiLog_def Let_def notify_fields)

lemma clearApiLogs_fields:
  "globalLogs (clearApiLogs s) = []"
  "calls (clearApiLogs s) = calls s @ map (\<lambda>l. (l, [])) (logListeners s)"
  by (simp_all add: clearApiLogs_def notify_fields)

lemma store_step_bounded:
  "length (globalLogs s) \<le> 100 \<Longrightarrow> length (globalLogs (store_step c s)) \<le> 100"
  by (cases c) (simp_all add: addApiLog_logs clearApiLogs_fields subscribe_def unsubscribe_def)

lemma run_store_bounded:
  "length (globalLogs s) \<le> 100 \<Longrightarrow> length (globalLogs (run_store cs s)) \<le> 100"
  unfolding run_store_def
  by (induction cs arbitrary: s) (simp_all add: store_step_bounded)

text \<open>
  C3: after any sequence of calls on the store (\<open>addApiLog\<close>, \<open>clearApiLogs\<close>, and the
  components' subscribing and unsubscribing), started from the empty store or from any
  store of at most 100 entries, the global list holds at most 100 entries; \<open>addApiLog\<close>
  puts exactly one new entry into the list (its length grows by one, up to the cap of 100),
  \<open>clearApiLogs\<close> leaves the list empty, and both call every registered listener, in the
  same step, with the resulting list.
\<close>

theorem api_log_store_bounded:
  "length (globalLogs (run_store cs initial_store)) \<le> 100
   \<and> (length (globalLogs s) \<le> 100 \<longrightarrow> length (globalLogs (run_store cs s)) \<le> 100)
   \<and> newLog amb input \<in> set (globalLogs (addApiLog amb input s))
   \<and> length (globalLogs (addApiLog amb input s)) = min 100 (Suc (length (globalLogs s)))
   \<and> globalLogs (clearApiLogs s) = []
   \<and> calls (addApiLog amb input s)
        = calls s @ map (\<lambda>l. (l, globalLogs (addApiLog amb input s))) (logListeners s)
   \<and> calls (clearApiLogs s) = calls s @ map (\<lambda>l. (l, [])) (logListeners s)"
proof -
  have "length (globalLogs (run_store cs (initial_store :: 'a store))) \<le> 100"
    by (rule run_store_bounded) (simp add: initial_store_def)
  moreover have "newLog amb input \<in> set (globalLogs (addApiLog amb input s))"
    by (simp add: addApiLog_logs)
  moreover have "length (globalLogs (addApiLog amb input s))
                   = min 100 (Suc (length (globalLogs s)))"
    by (simp add: addApiLog_logs)
  ultimately show ?thesis
    using run_store_bounded [of s cs] addApiLog_calls [of amb input s]
    by (simp add: clearApiLogs_fields)
qed

theorem api_log_store_bounded_witness:
  "length (globalLogs full_store) \<le> 100
   \<and> length (globalLogs
        (run_store [AddApiLog sample_ambient sample_input, ClearApiLogs,
                    AddApiLog sample_ambient sample_input] full_store)) \<le> 100
   \<and> calls (clearApiLogs full_store) = [(0, []), (1, [])]"
  using api_log_store_bounded
    [of "[AddApiLog sample_ambient sample_input, ClearApiLogs,
          AddApiLog sample_ambient sample_input]" full_store sample_ambient sample_input]
  by (simp add: full_store_def)

lemma take_append_take: "take n (xs @ take n ys) = take n (xs @ ys)"
  by (simp add: min_def)

lemma run_store_adds:
  "length (globalLogs s) \<le> 100 \<Longrightarrow>
   globalLogs (run_store (map (\<lambda>(amb, input). AddApiLog amb input) adds) s)
     = take 100 (rev (map (\<lambda>(amb, input). newLog amb input) adds) @ globalLogs s)"
proof (induction adds arbitrary: s)
  case Nil
  then show ?case by (simp add: run_store_def)
next
  case (Cons a adds)
  obtain amb input where a: "a = (amb, input)" by (cases a)
  have le: "length (globalLogs (addApiLog amb input s)) \<le> 100"
    by (simp add: addApiLog_logs)
  have "globalLogs (run_store (map (\<lambda>(amb, input). AddApiLog amb input) (a # adds)) s)
          = globalLogs (run_store (map (\<lambda>(amb, input). AddApiLog amb input) adds)
              (addApiLog amb input s))"
    by (simp add: run_store_def a)
  also have "\<dots> = take 100 (rev (map (\<lambda>(amb, input). newLog amb input) adds)
                        @ take 100 (newLog amb input # globalLogs s))"
    by (simp add: Cons.IH [OF le] addApiLog_logs)
  also have "\<dots> = take 100 (rev (map (\<lambda>(amb, input). newLog amb input) adds)
                        @ newLog amb input # globalLogs s)"
    by (rule take_append_take)
  finally show ?case by (simp add: a)
qed

text \<open>
  C10: \<open>addApiLog\<close> places the new entry at the front of the list and keeps the earlier
  entries behind it in their order; when the list already holds 100 entries exactly its
  last element (the oldest entry) is dropped, and below 100 nothing is dropped. So after
  any run of \<open>addApiLog\<close> calls the list is the 100 most recently added entries, newest
  first.
\<close>

theorem addApiLog_newest_first:
  "globalLogs (addApiLog amb input s) = newLog amb input # take 99 (globalLogs s)
   \<and> (length (globalLogs s) = 100 \<longrightarrow>
        globalLogs (addApiLog amb input s) = newLog amb input # butlast (globalLogs s))
   \<and> (length (globalLogs s) < 100 \<longrightarrow>
        globalLogs (addApiLog amb input s) = newLog amb input # globalLogs s)
   \<and> (length (globalLogs s) \<le> 100 \<longrightarrow>
        globalLogs (run_store (map (\<lambda>(amb, input). AddApiLog amb input) adds) s)
          = take 100 (rev (map (\<lambda>(amb, input). newLog amb input) adds) @ globalLogs s))
   \<and> globalLogs (run_store (map (\<lambda>(amb, input). AddApiLog amb input) adds) initial_store)
        = take 100 (rev (map (\<lambda>(amb, input). newLog amb input) adds))"
proof -
  have front: "globalLogs (addApiLog amb input s) = newLog amb input # take 99 (globalLogs s)"
    by (simp add: addApiLog_logs take_Cons')
  have full: "take 99 (globalLogs s) = butlast (globalLogs s)" if "length (globalLogs s) = 100"
    using that by (simp add: butlast_conv_take)
  have init: "globalLogs (run_store (map (\<lambda>(amb, input). AddApiLog amb input) adds)
                  (initial_store :: 'a store))
                = take 100 (rev (map (\<lambda>(amb, input). newLog amb input) adds))"
    using run_store_adds [of "initial_store :: 'a store" adds]
    by (simp add: initial_store_def)
  show ?thesis
    using front full init run_store_adds [of s adds] by simp
qed

theorem addApiLog_newest_first_witness:
  "length (globalLogs full_store) = 100
   \<and> globalLogs (addApiLog sample_ambient sample_input full_store)
       = newLog sample_ambient sample_input # butlast (globalLogs full_store)
   \<and> length (globalLogs (initial_store :: string store)) < 100
   \<and> globalLogs (addApiLog sample_ambient sample_input initial_store)
       = [newLog sample_ambient sample_input]
   \<and> globalLogs (run_store [AddApiLog sample_ambient sample_input] initial_store)
       = [newLog sample_ambient sample_input]"
  using addApiLog_newest_first [of sample_ambient sample_input full_store "[]"]
    addApiLog_newest_first [of sample_ambient sample_input "initial_store :: string store"
      "[(sample_ambient, sample_input)]"]
  by (simp add: full_store_def initial_store_def butlast_conv_take)

section \<open>Properties of the hooks\<close>

text \<open>
  Where the global \<open>navigator\<close> is declared, \<open>copy\<close> never throws: it returns \<open>true\<close>
  exactly when there is a clipboard and the write of the text succeeds, and then
  \<open>copiedText\<close> is the text; without a clipboard it returns \<open>false\<close> and leaves \<open>copiedText\<close>
  as it was; when the write fails it returns \<open>false\<close> and \<open>copiedText\<close> is reset to \<open>null\<close>.
\<close>

lemma copy_with_navigator:
  assumes "nav \<noteq> NavigatorUndeclared"
  shows "\<exists>b st'. copy nav text st = Inr (b, st')
     \<and> (b \<longleftrightarrow> (\<exists>writeText. navigator_clipboard nav = Inr (Some writeText)
                              \<and> writeText text = Inr ()))
     \<and> (b \<longrightarrow> copiedText st' = Some text)
     \<and> (navigator_clipboard nav = Inr None \<longrightarrow> \<not> b \<and> copiedText st' = copiedText st)
     \<and> (\<forall>writeText e. navigator_clipboard nav = Inr (Some writeText) \<and> writeText text = Inl e
            \<longrightarrow> \<not> b \<and> copiedText st' = None)"
proof -
  from assms obtain c where c: "navigator_clipboard nav = Inr c"
    by (cases nav) simp_all
  show ?thesis
  proof (cases c)
    case None
    with c show ?thesis by (auto simp: copy_def)
  next
    case (Some writeText)
    show ?thesis
    proof (cases "writeText text")
      case (Inl e)
      with c Some show ?thesis by (auto simp: copy_def copy_try_def)
    next
      case (Inr u)
      with c Some show ?thesis by (auto simp: copy_def copy_try_def)
    qed
  qed
qed

text \<open>
  C7: the claim that \<open>copy\<close> never throws and returns \<open>false\<close> when the clipboard API is
  unavailable fails where no global \<open>navigator\<close> is declared: for every text the guard
  \<open>navigator?.clipboard\<close>, which stands before the \<open>try\<close>, throws a \<open>ReferenceError\<close>, and the
  promise of \<open>copy\<close> is rejected.
\<close>

theorem copy_undeclared_navigator:
  "copy NavigatorUndeclared text st = Inl (Thrown ''ReferenceError'')"
  by (simp add: copy_def)

text \<open>
  C8: for every key and initial value, \<open>readValue\<close> of the storage hook never propagates an
  exception, whatever the storage and \<open>JSON.parse\<close> do; it yields the caller's initial
  value when the code runs outside a browser, when the read of the storage throws, when the
  key is absent, and when \<open>JSON.parse\<close> throws. (When a non-empty text is stored and parses,
  it yields the parsed value.)
\<close>

theorem readValue_never_throws:
  "\<exists>v. readValue env key initialValue = Inr v
     \<and> (\<not> isBrowser env \<longrightarrow> v = initialValue)
     \<and> (\<forall>e. getItem env key = Inl e \<longrightarrow> v = initialValue)
     \<and> (getItem env key = Inr None \<longrightarrow> v = initialValue)
     \<and> (\<forall>text e. getItem env key = Inr (Some text) \<and> JSON_parse env text = Inl e
            \<longrightarrow> v = initialValue)
     \<and> (\<forall>text x. isBrowser env \<and> getItem env key = Inr (Some text) \<and> text \<noteq> []
              \<and> JSON_parse env text = Inr x
            \<longrightarrow> v = x)"
proof (cases "isBrowser env")
  case False
  then show ?thesis by (simp add: readValue_def)
next
  case True
  show ?thesis
  proof (cases "getItem env key")
    case (Inl e)
    with True show ?thesis by (simp add: readValue_def readValue_try_def)
  next
    case (Inr item)
    show ?thesis
    proof (cases item)
      case None
      with True Inr show ?thesis by (simp add: readValue_def readValue_try_def)
    next
      case (Some stored)
      with True Inr show ?thesis
        by (cases "JSON_parse env stored") (simp_all add: readValue_def readValue_try_def)
    qed
  qed
qed

theorem readValue_never_throws_witness:
  "getItem sample_storage ''locked'' = Inl (Thrown ''SecurityError'')
   \<and> readValue sample_storage ''locked'' 0 = Inr 0
   \<and> getItem sample_storage ''theme'' = Inr None
   \<and> readValue sample_storage ''theme'' 0 = Inr 0
   \<and> getItem sample_storage ''username'' = Inr (Some ''{bad'')
   \<and> JSON_parse sample_storage ''{bad'' = Inl (Thrown ''SyntaxError'')
   \<and> readValue sample_storage ''username'' 0 = Inr 0
   \<and> \<not> isBrowser (sample_storage\<lparr>isBrowser := False\<rparr>)
   \<and> readValue (sample_storage\<lparr>isBrowser := False\<rparr>) ''count'' 0 = Inr 0
   \<and> readValue sample_storage ''count'' 0 = Inr 7"
  using readValue_never_throws [of sample_storage "''locked''" 0]
    readValue_never_throws [of sample_storage "''theme''" 0]
    readValue_never_throws [of sample_storage "''username''" 0]
    readValue_never_throws [of "sample_storage\<lparr>isBrowser := False\<rparr>" "''count''" 0]
    readValue_never_throws [of sample_storage "''count''" 0]
  by (auto simp: sample_storage_def)

section \<open>Properties of the changed-fields differ\<close>

subsection \<open>The traversal visits the leaves in order\<close>





subsection \<open>The leaves visited are the marked chains\<close>

lemma not_marked_nil: "\<not> marked d []"
  by (subst marked.simps) simp

lemma marked_leaf_iff: "marked d [k] \<longleftrightarrow> (\<exists>entries. d = MNode entries \<and> (k, MTrue) \<in> set entries)"
  by (subst marked.simps) (auto simp: not_marked_nil)




subsection \<open>What the traversal returns\<close>



subsection \<open>Paths\<close>




subsection \<open>What getChangedFields returns\<close>



subsection \<open>Resolution and comparison\<close>







subsection \<open>Examples\<close>

text \<open>
  The specification's example: \<^verbatim>\<open>{a: {b: true}}\<close>, \<^verbatim>\<open>{a: {b: 2}}\<close>, \<^verbatim>\<open>{a: {b: 1}}\<close> gives
  \<^verbatim>\<open>{"a.b": {from: 1, to: 2}}\<close>.
\<close>

lemma getChangedFields_example:
  "getChangedFields sample_host (Some example_dirtyFields) example_values example_originalValues
     = Inr [''a.b'' \<mapsto> \<lparr>from_value = JNum (Finite False 1), to_value = JNum (Finite False 2)\<rparr>]"
  by (simp add: getChangedFields_def example_dirtyFields_def example_values_def
      example_originalValues_def compare_leaf_def changed_entry_def getNestedValue_def
      get_prop_def fullPath_def sample_host_def show_nat.simps)

text \<open>
  A marker that names an inherited property is resolved along the prototype chain:
  \<^verbatim>\<open>{constructor: {name: true}}\<close> over \<^verbatim>\<open>{c: "x"}\<close> reports \<open>constructor.name\<close> with the name of
  the function \<open>Object\<close>.
\<close>

lemma getChangedFields_inherited:
  "getChangedFields sample_host (Some inherited_dirtyFields) cleared_values JUndefined
     = Inr [''constructor.name'' \<mapsto> \<lparr>from_value = JUndefined, to_value = JStr ''Object''\<rparr>]"
  by (simp add: getChangedFields_def inherited_dirtyFields_def cleared_values_def
      compare_leaf_def changed_entry_def getNestedValue_def get_prop_def fullPath_def
      sample_host_def)

subsection \<open>The claims\<close>

text \<open>
  C1: the claim fails for a form whose top-level field has the empty name. For the markers
  \<^verbatim>\<open>{"": {b: true}}\<close>, the values \<^verbatim>\<open>{"": {b: "new"}}\<close> and the original values
  \<^verbatim>\<open>{"": {b: "old"}}\<close>, in every host whose plain objects do not inherit a property \<open>b\<close>:
  the marker reached by the keys \<open>""\<close>, \<open>b\<close> is literally \<open>true\<close>, their dot-joined path is
  \<open>.b\<close>, the values resolved at \<open>.b\<close> are \<open>"new"\<close> and \<open>"old"\<close>, which \<open>JSON.stringify\<close> tells
  apart, and \<open>getChangedFields\<close> returns the empty mapping: the traversal takes the prefix
  below the empty key for no prefix and compares the values at \<open>b\<close>.
\<close>

theorem getChangedFields_unnamed_field:
  assumes "prototype_get h unnamed_values ''b'' = Inr JUndefined"
    and "prototype_get h unnamed_originalValues ''b'' = Inr JUndefined"
  shows "getChangedFields h (Some unnamed_dirtyFields) unnamed_values unnamed_originalValues
           = Inr Map.empty
     \<and> marked unnamed_dirtyFields ['''', ''b'']
     \<and> dot_joined ['''', ''b''] = ''.b''
     \<and> getNestedValue h unnamed_values ''.b'' = Inr (JStr ''new'')
     \<and> getNestedValue h unnamed_originalValues ''.b'' = Inr (JStr ''old'')
     \<and> JSON_stringify h (JStr ''new'') \<noteq> JSON_stringify h (JStr ''old'')"
proof -
  have "marked (MNode [(''b'', MTrue)]) [''b'']"
    by (rule marked.leaf) simp
  then have m: "marked unnamed_dirtyFields ['''', ''b'']"
    unfolding unnamed_dirtyFields_def by (rule marked.node [rotated]) simp
  have cur: "getNestedValue h unnamed_values ''b'' = Inr JUndefined"
    using assms(1) by (simp add: getNestedValue_def get_prop_def unnamed_values_def)
  have orig: "getNestedValue h unnamed_originalValues ''b'' = Inr JUndefined"
    using assms(2) by (simp add: getNestedValue_def get_prop_def unnamed_originalValues_def)
  have t: "truthy h unnamed_values" "truthy h unnamed_originalValues"
    by (simp_all add: unnamed_values_def unnamed_originalValues_def)
  have "changed_entry h unnamed_values unnamed_originalValues ''b'' = Inr None"
    by (simp add: changed_entry_def cur orig t)
  then have "getChangedFields h (Some unnamed_dirtyFields) unnamed_values unnamed_originalValues
               = Inr Map.empty"
    using t by (simp add: getChangedFields_def unnamed_dirtyFields_def compare_leaf_def
        fullPath_def)
  moreover have "getNestedValue h unnamed_values ''.b'' = Inr (JStr ''new'')"
    "getNestedValue h unnamed_originalValues ''.b'' = Inr (JStr ''old'')"
    by (simp_all add: getNestedValue_def get_prop_def unnamed_values_def
        unnamed_originalValues_def)
  moreover have "JSON_stringify h (JStr ''new'') \<noteq> JSON_stringify h (JStr ''old'')"
    by (simp add: quote_def escape_char_def)
  ultimately show ?thesis
    using m by (simp add: dot_joined_def)
qed

theorem getChangedFields_unnamed_field_witness:
  "prototype_get sample_host unnamed_values ''b'' = Inr JUndefined
   \<and> prototype_get sample_host unnamed_originalValues ''b'' = Inr JUndefined
   \<and> getChangedFields sample_host (Some unnamed_dirtyFields) unnamed_values
        unnamed_originalValues = Inr Map.empty
   \<and> getNestedValue sample_host unnamed_values ''.b'' = Inr (JStr ''new'')
   \<and> getNestedValue sample_host unnamed_originalValues ''.b'' = Inr (JStr ''old'')"
proof -
  have p: "prototype_get sample_host unnamed_values ''b'' = Inr JUndefined"
    "prototype_get sample_host unnamed_originalValues ''b'' = Inr JUndefined"
    by (simp_all add: sample_host_def unnamed_values_def unnamed_originalValues_def)
  from getChangedFields_unnamed_field [OF p] p show ?thesis by simp
qed




section \<open>Properties of the price calculations\<close>

text \<open>The exponent function finds the binade of a positive rational, and only that.\<close>

lemma ilog2_bounds:
  assumes "0 < m"
  shows "2 powi (ilog2 m) \<le> m \<and> m < 2 powi (ilog2 m + 1)"
proof -
  obtain p q where pq: "quotient_of m = (p, q)" by (cases "quotient_of m")
  then have q: "0 < q" and m: "m = of_int p / of_int q"
    by (auto dest: quotient_of_denom_pos quotient_of_div)
  with assms have p: "0 < p" by (simp add: zero_less_divide_iff)
  have bp: "1 \<le> bitlen p" and bq: "1 \<le> bitlen q"
    using p q by (simp_all add: bitlen_alt_def)
  have pow_le: "(2::rat) powi (bitlen k - 1) \<le> of_int k \<and> of_int k < (2::rat) powi (bitlen k)"
    if k: "0 < k" for k :: int
  proof -
    have bk: "1 \<le> bitlen k" using k by (simp add: bitlen_alt_def)
    from bitlen_bounds [OF k] have "(2::int) ^ nat (bitlen k - 1) \<le> k" "k < 2 ^ nat (bitlen k)"
      by simp_all
    then have "rat_of_int (2 ^ nat (bitlen k - 1)) \<le> rat_of_int k"
      "rat_of_int k < rat_of_int (2 ^ nat (bitlen k))"
      by (simp_all only: of_int_le_iff of_int_less_iff)
    then have "(2::rat) ^ nat (bitlen k - 1) \<le> of_int k" "of_int k < (2::rat) ^ nat (bitlen k)"
      by simp_all
    moreover have "(2::rat) powi (bitlen k - 1) = 2 ^ nat (bitlen k - 1)"
      "(2::rat) powi (bitlen k) = 2 ^ nat (bitlen k)"
      using bk by (simp_all add: power_int_nonneg_exp)
    ultimately show ?thesis by simp
  qed
  note p1 = pow_le [OF p, THEN conjunct1] and p2 = pow_le [OF p, THEN conjunct2]
    and q1 = pow_le [OF q, THEN conjunct1] and q2 = pow_le [OF q, THEN conjunct2]
  define d where "d = bitlen p - bitlen q"
  have qpos: "(0::rat) < of_int q" using q by simp
  have up: "m < 2 powi (d + 1)"
  proof -
    have "of_int p < (2::rat) powi (d + 1) * 2 powi (bitlen q - 1)"
      using p2 by (simp add: d_def flip: power_int_add)
    also have "\<dots> \<le> 2 powi (d + 1) * of_int q"
      using q1 by (intro mult_left_mono) simp_all
    finally show ?thesis using qpos by (simp add: m pos_divide_less_eq)
  qed
  have lo: "2 powi (d - 1) \<le> m"
  proof -
    have "(2::rat) powi (d - 1) * of_int q \<le> 2 powi (d - 1) * 2 powi (bitlen q)"
      using q2 by (intro mult_left_mono) simp_all
    also have "\<dots> = 2 powi (bitlen p - 1)"
      by (simp add: d_def flip: power_int_add)
    also have "\<dots> \<le> of_int p" by (rule p1)
    finally show ?thesis using qpos by (simp add: m pos_le_divide_eq)
  qed
  show ?thesis
  proof (cases "2 powi d \<le> m")
    case True
    then have "ilog2 m = d" by (simp add: ilog2_def pq d_def)
    with True up show ?thesis by simp
  next
    case False
    then have "ilog2 m = d - 1" by (simp add: ilog2_def pq d_def)
    with False lo show ?thesis by simp
  qed
qed

lemma ilog2_unique:
  assumes "0 < m" "2 powi e \<le> m" "m < 2 powi (e + 1)"
  shows "ilog2 m = e"
proof (rule antisym)
  from ilog2_bounds [OF assms(1)] have b: "2 powi (ilog2 m) \<le> m" "m < 2 powi (ilog2 m + 1)"
    by simp_all
  show "ilog2 m \<le> e"
  proof (rule ccontr)
    assume "\<not> ilog2 m \<le> e"
    then have "e + 1 \<le> ilog2 m" by simp
    then have "(2::rat) powi (e + 1) \<le> 2 powi (ilog2 m)"
      by (rule power_int_increasing) simp
    with b(1) assms(3) show False by simp
  qed
  show "e \<le> ilog2 m"
  proof (rule ccontr)
    assume "\<not> e \<le> ilog2 m"
    then have "ilog2 m + 1 \<le> e" by simp
    then have "(2::rat) powi (ilog2 m + 1) \<le> 2 powi e"
      by (rule power_int_increasing) simp
    with b(2) assms(2) show False by simp
  qed
qed


lemma round_half_even_of_int: "round_half_even (of_int z) = z"
  by (simp add: round_half_even_def)

lemma fl_eval:
  assumes "0 < m" "2 powi e \<le> m" "m < 2 powi (e + 1)" "- 1022 \<le> e"
    and "of_int (round_half_even (m / 2 powi (e - 52))) * 2 powi (e - 52) = r"
    and "r < 2 ^ 1024"
  shows "fl s m = Finite s r"
proof -
  have "ilog2 m = e" using assms(1-3) by (rule ilog2_unique)
  with assms(1,4,5) have "nearest m = r"
    by (simp add: nearest_def Let_def max_def)
  with assms(6) show ?thesis by (simp add: fl_def)
qed

lemma fl_integer:
  assumes "0 \<le> n" "n < 2 ^ 53"
  shows "fl s (of_int n) = Finite s (of_int n)"
proof (cases "n = 0")
  case True
  then show ?thesis by (simp add: fl_def nearest_def)
next
  case False
  define m :: rat where "m = of_int n"
  define e where "e = ilog2 m"
  from False assms have "1 \<le> n" by simp
  then have m1: "1 \<le> m" by (simp add: m_def)
  from assms have "rat_of_int n < rat_of_int (2 ^ 53)"
    by (simp only: of_int_less_iff)
  then have m53: "m < 2 ^ 53" by (simp add: m_def)
  from m1 have mpos: "0 < m" by simp
  from ilog2_bounds [OF mpos] have b: "2 powi e \<le> m" "m < 2 powi (e + 1)"
    by (simp_all add: e_def)
  have e0: "0 \<le> e"
  proof (rule ccontr)
    assume "\<not> 0 \<le> e"
    then have "e + 1 \<le> 0" by simp
    then have "(2::rat) powi (e + 1) \<le> 2 powi 0" by (rule power_int_increasing) simp
    with b(2) m1 show False by simp
  qed
  have e52: "e \<le> 52"
  proof (rule ccontr)
    assume "\<not> e \<le> 52"
    then have "53 \<le> e" by simp
    then have "(2::rat) powi 53 \<le> 2 powi e" by (rule power_int_increasing) simp
    with b(1) m53 show False by simp
  qed
  define k where "k = nat (52 - e)"
  have u: "(2::rat) powi (e - 52) = 1 / 2 ^ k"
  proof -
    have "e - 52 = - int k" using e52 by (simp add: k_def)
    then show ?thesis by (simp add: power_int_minus_divide)
  qed
  have "m / (2 powi (e - 52)) = of_int (n * 2 ^ k)"
    by (simp add: u m_def)
  then have "of_int (round_half_even (m / 2 powi (e - 52))) * 2 powi (e - 52) = m"
    by (simp only: round_half_even_of_int) (simp add: u m_def)
  moreover have "m < 2 ^ 1024"
  proof -
    have "(2::rat) ^ 53 \<le> 2 ^ 1024" by (rule power_increasing) simp_all
    with m53 show ?thesis by simp
  qed
  ultimately have "fl s m = Finite s m"
    using mpos b e0 by (intro fl_eval [where e = e]) simp_all
  then show ?thesis by (simp add: m_def)
qed

lemma round_half_even_down:
  assumes "of_int z \<le> q" "q < of_int z + 1 / 2"
  shows "round_half_even q = z"
proof -
  have "\<lfloor>q\<rfloor> = z" using assms by (intro floor_unique) simp_all
  with assms show ?thesis by (simp add: round_half_even_def)
qed

lemma round_half_even_up:
  assumes "of_int z - 1 / 2 < q" "q < of_int z"
  shows "round_half_even q = z"
proof -
  have "\<lfloor>q\<rfloor> = z - 1" using assms by (intro floor_unique) simp_all
  with assms show ?thesis by (simp add: round_half_even_def)
qed

lemma fl_fifth: "fl False (1 / 5) = Finite False (3602879701896397 / 2 ^ 54)"
proof -
  have "round_half_even ((1 / 5) / 2 powi (- 3 - 52)) = 7205759403792794"
    by (rule round_half_even_up) (simp_all add: power_int_minus_divide)
  then have "of_int (round_half_even ((1 / 5) / 2 powi (- 3 - 52))) * 2 powi (- 3 - 52)
        = (3602879701896397 / 2 ^ 54 :: rat)"
    by (simp add: power_int_minus_divide)
  then show ?thesis
    by (rule fl_eval [where e = "- 3", rotated 4]) (simp_all add: power_int_minus_divide)
qed

lemma fl_twenty: "fl False (3602879701896397 / 2 ^ 54 * 100) = Finite False 20"
proof -
  have "round_half_even ((3602879701896397 / 2 ^ 54 * 100) / 2 powi (4 - 52))
          = 5629499534213120"
    by (rule round_half_even_down) (simp_all add: power_int_minus_divide)
  then have "of_int (round_half_even ((3602879701896397 / 2 ^ 54 * 100) / 2 powi (4 - 52)))
               * 2 powi (4 - 52) = (20 :: rat)"
    by (simp add: power_int_minus_divide)
  then show ?thesis
    by (rule fl_eval [where e = 4, rotated 4]) (simp_all add: power_int_minus_divide)
qed


lemma fl_literal:
  "fl False 20 = Finite False 20"
  "fl False 2000 = Finite False 2000"
  "fl False 8000 = Finite False 8000"
  "fl False 200000 = Finite False 200000"
  "fl False 800000 = Finite False 800000"
  using fl_integer [of 20 False] fl_integer [of 2000 False] fl_integer [of 8000 False]
    fl_integer [of 200000 False] fl_integer [of 800000 False]
  by simp_all

lemma Math_round_integer:
  assumes "0 < n"
  shows "Math_round (Finite False (of_int n)) = Finite False (of_int n)"
proof -
  have "\<lfloor>rat_of_int n + 1 / 2\<rfloor> = n"
    by (intro floor_unique) simp_all
  with assms show ?thesis by (simp add: val_def)
qed

text \<open>The value of a run is the expression of the source.\<close>

lemma calculateDiscount_value:
  "calculateDiscount originalPrice discountedPrice =
     (if num_le originalPrice (Finite False 0) then Finite False 0
      else num_div
             (Math_round
                (num_mul
                   (num_mul (num_div (num_sub originalPrice discountedPrice) originalPrice)
                      (Finite False 100))
                   (Finite False 100)))
             (Finite False 100))"
  by (simp add: calculateDiscount_def calculateDiscount_run_def divide_def Let_def)

lemma calculateDiscount_divisors_eq:
  "calculateDiscount_divisors originalPrice discountedPrice =
     (if num_le originalPrice (Finite False 0) then [] else [originalPrice, Finite False 100])"
  by (simp add: calculateDiscount_divisors_def calculateDiscount_run_def divide_def Let_def)

lemma calculateDiscount_example:
  "calculateDiscount (Finite False 10000) (Finite False 8000) = Finite False 20"
proof -
  let ?fifth = "Finite False (3602879701896397 / 2 ^ 54)"
  have a: "num_sub (Finite False 10000) (Finite False 8000) = Finite False 2000"
    by (simp add: num_sub_def val_def fl_literal)
  have "num_div (Finite False 2000) (Finite False 10000) = fl False (1 / 5)"
    by simp
  then have b: "num_div (Finite False 2000) (Finite False 10000) = ?fifth"
    by (simp only: fl_fifth)
  have "num_mul ?fifth (Finite False 100) = fl False (3602879701896397 / 2 ^ 54 * 100)"
    by (simp only: num_mul.simps simp_thms)
  then have c: "num_mul ?fifth (Finite False 100) = Finite False 20"
    by (simp only: fl_twenty)
  have d: "num_mul (Finite False 20) (Finite False 100) = Finite False 2000"
    by (simp add: fl_literal)
  have e: "Math_round (Finite False 2000) = Finite False 2000"
    using Math_round_integer [of 2000] by simp
  have f: "num_div (Finite False 2000) (Finite False 100) = Finite False 20"
    by (simp add: fl_literal)
  have g: "\<not> num_le (Finite False 10000) (Finite False 0)"
    by (simp add: val_def)
  show ?thesis
    by (simp only: calculateDiscount_value g if_False a b c d e f)
qed

lemma calculateDiscountedPrice_example:
  "calculateDiscountedPrice (Finite False 10000) (Finite False 20) = Finite False 8000"
proof -
  have a: "num_mul (Finite False 10000) (Finite False 20) = Finite False 200000"
    by (simp add: fl_literal)
  have b: "num_div (Finite False 200000) (Finite False 100) = Finite False 2000"
    by (simp add: fl_literal)
  have c: "num_sub (Finite False 10000) (Finite False 2000) = Finite False 8000"
    by (simp add: num_sub_def val_def fl_literal)
  have d: "num_mul (Finite False 8000) (Finite False 100) = Finite False 800000"
    by (simp add: fl_literal)
  have e: "Math_round (Finite False 800000) = Finite False 800000"
    using Math_round_integer [of 800000] by simp
  have f: "num_div (Finite False 800000) (Finite False 100) = Finite False 8000"
    by (simp add: fl_literal)
  show ?thesis
    by (simp only: calculateDiscountedPrice_def Let_def a b c d e f)
qed

text \<open>
  C5: \<open>calculateDiscount(10000, 8000)\<close> is \<open>20\<close>, and
  \<open>calculateDiscountedPrice(10000, calculateDiscount(10000, 8000))\<close> is \<open>8000\<close>, exactly, in
  binary64 arithmetic: the quotient \<open>2000 / 10000\<close> is rounded to the double nearest to
  \<open>0.2\<close>, whose product with \<open>100\<close> is rounded to \<open>20\<close>; every other step is exact.
\<close>

theorem calculateDiscount_roundtrip:
  "calculateDiscount (Finite False 10000) (Finite False 8000) = Finite False 20
   \<and> calculateDiscountedPrice (Finite False 10000)
         (calculateDiscount (Finite False 10000) (Finite False 8000)) = Finite False 8000"
  by (simp only: calculateDiscount_example calculateDiscountedPrice_example simp_thms)

text \<open>
  C9 (amended): for every pair of numbers, \<open>calculateDiscount\<close> returns \<open>0\<close> whenever
  \<open>originalPrice <= 0\<close>, and then carries out no division; no division it carries out has
  a zero divisor; and when it divides by \<open>originalPrice\<close>, that is strictly positive or \<open>NaN\<close>.
\<close>

theorem calculateDiscount_guard:
  "(num_le originalPrice (Finite False 0) \<longrightarrow>
      calculateDiscount originalPrice discountedPrice = Finite False 0
      \<and> calculateDiscount_divisors originalPrice discountedPrice = [])
   \<and> (\<forall>d \<in> set (calculateDiscount_divisors originalPrice discountedPrice). \<not> is_zero d)
   \<and> (originalPrice \<in> set (calculateDiscount_divisors originalPrice discountedPrice) \<longrightarrow>
      num_lt (Finite False 0) originalPrice \<or> originalPrice = NaN)"
proof (cases "num_le originalPrice (Finite False 0)")
  case True
  then show ?thesis
    by (simp add: calculateDiscount_value calculateDiscount_divisors_eq)
next
  case False
  then have "calculateDiscount_divisors originalPrice discountedPrice
               = [originalPrice, Finite False 100]"
    by (simp add: calculateDiscount_divisors_eq)
  moreover from False have "\<not> is_zero originalPrice"
    by (cases originalPrice) (auto simp: val_def split: if_splits)
  moreover from False have "num_lt (Finite False 0) originalPrice \<or> originalPrice = NaN"
    by (cases originalPrice) (auto simp: val_def split: if_splits)
  ultimately show ?thesis using False by simp
qed

theorem calculateDiscount_guard_witness:
  "num_le (Finite True 5) (Finite False 0)
   \<and> calculateDiscount (Finite True 5) (Finite False 3) = Finite False 0
   \<and> calculateDiscount_divisors (Finite True 5) (Finite False 3) = []
   \<and> num_le (Finite True 0) (Finite False 0)
   \<and> calculateDiscount (Finite True 0) (Finite False 3) = Finite False 0
   \<and> calculateDiscount_divisors (Finite False 10000) (Finite False 8000)
       = [Finite False 10000, Finite False 100]
   \<and> \<not> is_zero (Finite False 10000) \<and> \<not> is_zero (Finite False 100)
   \<and> num_lt (Finite False 0) (Finite False 10000)"
  using calculateDiscount_guard [of "Finite True 5" "Finite False 3"]
    calculateDiscount_guard [of "Finite True 0" "Finite False 3"]
    calculateDiscount_guard [of "Finite False 10000" "Finite False 8000"]
  by (simp add: val_def calculateDiscount_divisors_eq)

text \<open>
  The claim C9 as it is worded fails for an \<open>originalPrice\<close> that is \<open>NaN\<close>: \<open>NaN <= 0\<close> is
  false, so the function divides by \<open>NaN\<close>, which is not strictly positive, and returns
  \<open>NaN\<close>.
\<close>

theorem calculateDiscount_nan_counterexample:
  "\<not> num_le NaN (Finite False 0)
   \<and> NaN \<in> set (calculateDiscount_divisors NaN (Finite False 8000))
   \<and> \<not> num_lt (Finite False 0) NaN
   \<and> calculateDiscount NaN (Finite False 8000) = NaN"
  by (simp add: calculateDiscount_value calculateDiscount_divisors_eq num_sub_def)

end
